theory Spec2Isabelle
  imports Complex_Main
begin

section \<open>Python strings\<close>

text \<open>
  A Python \<open>str\<close> is a sequence of Unicode code points, and so is it here: \<open>ascii\<close>
  turns a literal into its code points, and a character outside ASCII is written by its
  number. \<open>s[:-1]\<close> is \<open>butlast s\<close>.
\<close>

type_synonym codepoint = int

type_synonym str = "codepoint list"

definition ascii :: "string \<Rightarrow> str" where
  "ascii s = map of_char s"

definition startswith :: "'a list \<Rightarrow> 'a list \<Rightarrow> bool" where
  "startswith s p = (take (length p) s = p)"

text \<open>\<open>str_in p s\<close> is Python's \<open>p in s\<close> on strings: \<open>p\<close> occurs in \<open>s\<close> as a substring.\<close>

fun str_in :: "'a list \<Rightarrow> 'a list \<Rightarrow> bool" where
  "str_in p [] = (p = [])"
| "str_in p (c # s) = (startswith (c # s) p \<or> str_in p s)"

text \<open>\<open>join sep xs\<close> is \<open>sep.join(xs)\<close>.\<close>

fun join :: "'a list \<Rightarrow> 'a list list \<Rightarrow> 'a list" where
  "join sep [] = []"
| "join sep [x] = x"
| "join sep (x # y # ys) = x @ sep @ join sep (y # ys)"

definition digit :: "nat \<Rightarrow> codepoint" where
  "digit d = 48 + int (d mod 10)"

text \<open>\<open>str_nat n\<close> is \<open>str(n)\<close> for a non-negative integer.\<close>

fun str_nat :: "nat \<Rightarrow> str" where
  "str_nat n = (if n < 10 then [digit n] else str_nat (n div 10) @ [digit (n mod 10)])"

section \<open>Exceptions, the driver and the world\<close>

text \<open>
  An exception carries the text \<open>str(e)\<close> gives. \<open>asyncpg.PostgresError\<close> is a subclass of
  \<open>Exception\<close>; \<open>BaseExceptionOnly\<close> stands for what \<open>except Exception\<close> does not catch
  (\<open>asyncio.CancelledError\<close>, \<open>KeyboardInterrupt\<close>).
\<close>

datatype exn = PostgresError str | OtherException str | BaseExceptionOnly str

datatype 'a outcome = Returned 'a | Raised exn

text \<open>The calls an operation issues to the database driver, in the order it issues them.\<close>

datatype call = Connect | Execute str | Fetch str | Close

text \<open>
  The world an operation changes: the text of \<open>alertas_seguridad.log\<close> and the driver
  calls issued so far.
\<close>

record world =
  log_file :: str
  calls :: "call list"

text \<open>
  A row of \<open>list_creative_customers\<close>' query: \<open>total_spent\<close> is \<open>None\<close> for SQL NULL.
  Python floats are modelled by the reals they denote, and \<open>float\<close> of the column's
  value by that value (exact for amounts with two decimals, as sums of payments are).
\<close>

record customer_row =
  first_name :: str
  last_name :: str
  total_spent :: "real option"

text \<open>
  What the surroundings answer during one invocation.
  \<^item> \<open>upper_of\<close> and \<open>isspace\<close> are the tables of the Unicode database the interpreter
    ships: the uppercase mapping of a code point (one code point or several) and
    whether \<open>str.isspace\<close> holds of it. They are not part of the repository, so they are
    left open: every theorem below holds for any tables.
  \<^item> \<open>now\<close> is the clock as \<open>strftime\<close> formats it.
  \<^item> \<open>log_res\<close> is what opening and writing the log file does: it returns, or it raises
    (a directory that cannot be written, text that cannot be encoded) and leaves the
    file as it was.
  \<^item> The remaining fields are the driver's answers. A fetched row is kept as the
    operation reads it: for the caller's query the \<open>(column, str(value))\<close> pairs in
    column order, for the fixed queries the columns they select.
\<close>

record env =
  upper_of :: "codepoint \<Rightarrow> str"
  isspace :: "codepoint \<Rightarrow> bool"
  now :: str
  log_res :: "unit outcome"
  connect_res :: "unit outcome"
  execute_res :: "str \<Rightarrow> unit outcome"
  fetch_res :: "str \<Rightarrow> (str \<times> str) list list outcome"
  fetch_tables :: "str list outcome"
  fetch_customers :: "customer_row list outcome"
  fetch_categories :: "str list outcome"
  close_res :: "unit outcome"

text \<open>\<open>s.upper()\<close> maps every code point by the table; \<open>s.strip()\<close> drops the leading and
  the trailing code points that are spaces.\<close>

definition upper :: "env \<Rightarrow> str \<Rightarrow> str" where
  "upper e s = concat (map (upper_of e) s)"

definition strip :: "env \<Rightarrow> str \<Rightarrow> str" where
  "strip e s = rev (dropWhile (isspace e) (rev (dropWhile (isspace e) s)))"

definition get_db_connection :: "env \<Rightarrow> world \<Rightarrow> unit outcome \<times> world" where
  "get_db_connection e w = (connect_res e, w\<lparr>calls := calls w @ [Connect]\<rparr>)"

definition conn_execute :: "env \<Rightarrow> str \<Rightarrow> world \<Rightarrow> unit outcome \<times> world" where
  "conn_execute e sql w = (execute_res e sql, w\<lparr>calls := calls w @ [Execute sql]\<rparr>)"

definition conn_fetch :: "'a outcome \<Rightarrow> str \<Rightarrow> world \<Rightarrow> 'a outcome \<times> world" where
  "conn_fetch answer sql w = (answer, w\<lparr>calls := calls w @ [Fetch sql]\<rparr>)"

definition conn_close :: "env \<Rightarrow> world \<Rightarrow> unit outcome \<times> world" where
  "conn_close e w = (close_res e, w\<lparr>calls := calls w @ [Close]\<rparr>)"

text \<open>
  \<open>finally: await conn.close()\<close> after a block that ended in \<open>r\<close>: the handle is closed,
  and an error of the closing replaces whatever the block returned or raised.
\<close>

definition finally_close :: "env \<Rightarrow> 'a outcome \<times> world \<Rightarrow> 'a outcome \<times> world" where
  "finally_close e rw =
     (case conn_close e (snd rw) of
        (Raised x, w') \<Rightarrow> (Raised x, w')
      | (Returned _, w') \<Rightarrow> (fst rw, w'))"

text \<open>A statement followed by \<open>return v\<close>: if the statement raised, nothing is returned.\<close>

definition then_return :: "unit outcome \<times> world \<Rightarrow> 'a \<Rightarrow> 'a outcome \<times> world" where
  "then_return rw v =
     (case fst rw of Raised x \<Rightarrow> (Raised x, snd rw) | Returned _ \<Rightarrow> (Returned v, snd rw))"

section \<open>The security layer\<close>

definition PALABRAS_PROHIBIDAS :: "str list" where
  "PALABRAS_PROHIBIDAS =
     map ascii
       [''DROP'', ''DELETE'', ''UPDATE'', ''TRUNCATE'', ''ALTER'', ''GRANT'', ''INSERT'']"

definition alert_line :: "str \<Rightarrow> str \<Rightarrow> str \<Rightarrow> str" where
  "alert_line timestamp motivo query =
     [0x26A0, 0xFE0F] @ ascii '' ['' @ timestamp @ ascii ''] [BLOQUEADO] Motivo: '' @ motivo @
     ascii '' | Query: '' @ query @ ascii ''\<newline>''"

definition registrar_alerta_seguridad ::
  "env \<Rightarrow> str \<Rightarrow> str \<Rightarrow> world \<Rightarrow> unit outcome \<times> world" where
  "registrar_alerta_seguridad e query motivo w =
     (case log_res e of
        Raised x \<Rightarrow> (Raised x, w)
      | Returned _ \<Rightarrow>
          (Returned (), w\<lparr>log_file := log_file w @ alert_line (now e) motivo query\<rparr>))"

section \<open>\<open>run_select_query\<close>\<close>

definition READ_ONLY :: str where
  "READ_ONLY = ascii ''SET SESSION CHARACTERISTICS AS TRANSACTION READ ONLY''"

definition format_rows :: "(str \<times> str) list list \<Rightarrow> str" where
  "format_rows rows =
     (case rows of
        [] \<Rightarrow> ascii ''La consulta no devolvi'' @ [0xF3] @ ascii '' resultados.''
      | row0 # _ \<Rightarrow>
          foldl
            (\<lambda>result_text row.
               result_text @ join (ascii '' | '') (map snd row) @ ascii ''\<newline>'')
            (ascii ''Resultados ('' @ str_nat (length rows) @ ascii '' filas):\<newline>'' @
             join (ascii '' | '') (map fst row0) @ ascii ''\<newline>'' @
             replicate 50 (of_char (CHR ''-'')) @ ascii ''\<newline>'')
            rows)"

text \<open>The body of the \<open>try\<close> block: the read-only directive, then the caller's query.\<close>

definition run_select_query_try :: "env \<Rightarrow> str \<Rightarrow> world \<Rightarrow> str outcome \<times> world" where
  "run_select_query_try e query w =
     (case conn_execute e READ_ONLY w of
        (Raised x, w1) \<Rightarrow> (Raised x, w1)
      | (Returned _, w1) \<Rightarrow>
          (case conn_fetch (fetch_res e query) query w1 of
             (Raised x, w2) \<Rightarrow> (Raised x, w2)
           | (Returned rows, w2) \<Rightarrow> (Returned (format_rows rows), w2)))"

text \<open>
  Everything after the three checks: connect (outside the \<open>try\<close>), the \<open>try\<close> block, the
  two handlers, \<open>finally\<close>. An error raised inside the first handler, by the log write,
  is not seen by the second one.
\<close>

definition run_select_query_exec :: "env \<Rightarrow> str \<Rightarrow> world \<Rightarrow> str outcome \<times> world" where
  "run_select_query_exec e query w =
     (case get_db_connection e w of
        (Raised x, w1) \<Rightarrow> (Raised x, w1)
      | (Returned _, w1) \<Rightarrow>
          finally_close e
            (case run_select_query_try e query w1 of
               (Returned result_text, w2) \<Rightarrow> (Returned result_text, w2)
             | (Raised (PostgresError m), w2) \<Rightarrow>
                 then_return
                   (registrar_alerta_seguridad e query (ascii ''ERROR DB: '' @ m) w2)
                   (ascii ''ERROR DE BASE DE DATOS: '' @ m)
             | (Raised (OtherException m), w2) \<Rightarrow>
                 (Returned (ascii ''ERROR DEL SISTEMA: '' @ m), w2)
             | (Raised (BaseExceptionOnly m), w2) \<Rightarrow> (Raised (BaseExceptionOnly m), w2)))"

definition run_select_query :: "env \<Rightarrow> str \<Rightarrow> world \<Rightarrow> str outcome \<times> world" where
  "run_select_query e query w =
     (let query_upper = strip e (upper e query) in
      if \<not> startswith query_upper (ascii ''SELECT'') then
        then_return
          (registrar_alerta_seguridad e query
             (ascii ''COMANDO NO AUTORIZADO (No empez'' @ [0xF3] @ ascii '' con SELECT)'') w)
          (ascii ''ERROR DE SEGURIDAD: Solo se permiten consultas SELECT.'')
      else
        (case find (\<lambda>palabra. str_in palabra query_upper) PALABRAS_PROHIBIDAS of
           Some palabra \<Rightarrow>
             then_return
               (registrar_alerta_seguridad e query
                  (ascii ''PALABRA PROHIBIDA DETECTADA: '' @ palabra) w)
               (ascii ''ERROR DE SEGURIDAD: Uso prohibido de '' @ [0x27] @ palabra @ [0x27] @
                ascii ''.'')
         | None \<Rightarrow>
             if str_in (ascii '';'') (butlast (strip e query)) then
               then_return
                 (registrar_alerta_seguridad e query
                    (ascii ''INTENTO DE MULTI-QUERY (Inyecci'' @ [0xF3] @ ascii ''n)'') w)
                 (ascii ''ERROR DE SEGURIDAD: No se permiten m'' @ [0xFA] @
                  ascii ''ltiples sentencias.'')
             else run_select_query_exec e query w))"

text \<open>
  The three checks of \<open>run_select_query\<close> on their own, as a decision: which check, if
  any, stops the query. \<open>motivo\<close> is the reason each one logs and \<open>mensaje\<close> the string it
  returns.
\<close>

datatype reason = NotSelect | ForbiddenKeyword str | MultiStatement

datatype validation = Allowed str | Rejected reason

definition gate :: "env \<Rightarrow> str \<Rightarrow> validation" where
  "gate e query =
     (let query_upper = strip e (upper e query) in
      if \<not> startswith query_upper (ascii ''SELECT'') then Rejected NotSelect
      else
        (case find (\<lambda>palabra. str_in palabra query_upper) PALABRAS_PROHIBIDAS of
           Some palabra \<Rightarrow> Rejected (ForbiddenKeyword palabra)
         | None \<Rightarrow>
             if str_in (ascii '';'') (butlast (strip e query)) then Rejected MultiStatement
             else Allowed query))"

fun motivo :: "reason \<Rightarrow> str" where
  "motivo NotSelect =
     ascii ''COMANDO NO AUTORIZADO (No empez'' @ [0xF3] @ ascii '' con SELECT)''"
| "motivo (ForbiddenKeyword palabra) = ascii ''PALABRA PROHIBIDA DETECTADA: '' @ palabra"
| "motivo MultiStatement = ascii ''INTENTO DE MULTI-QUERY (Inyecci'' @ [0xF3] @ ascii ''n)''"

fun mensaje :: "reason \<Rightarrow> str" where
  "mensaje NotSelect = ascii ''ERROR DE SEGURIDAD: Solo se permiten consultas SELECT.''"
| "mensaje (ForbiddenKeyword palabra) =
     ascii ''ERROR DE SEGURIDAD: Uso prohibido de '' @ [0x27] @ palabra @ [0x27] @ ascii ''.''"
| "mensaje MultiStatement =
     ascii ''ERROR DE SEGURIDAD: No se permiten m'' @ [0xFA] @ ascii ''ltiples sentencias.''"

section \<open>The reporting operations\<close>

definition tables_query :: str where
  "tables_query =
     ascii ''\<newline>        SELECT table_name \<newline>        FROM information_schema.tables \<newline>        WHERE table_schema = '' @ [0x27] @ ascii ''public'' @ [0x27] @ ascii '' \<newline>        ORDER BY table_name;\<newline>        ''"

definition list_tables :: "env \<Rightarrow> world \<Rightarrow> str outcome \<times> world" where
  "list_tables e w =
     (case get_db_connection e w of
        (Raised x, w1) \<Rightarrow> (Raised x, w1)
      | (Returned _, w1) \<Rightarrow>
          finally_close e
            (case conn_fetch (fetch_tables e) tables_query w1 of
               (Raised x, w2) \<Rightarrow> (Raised x, w2)
             | (Returned tables, w2) \<Rightarrow>
                 (Returned (ascii ''Tablas encontradas en Pagila: '' @
                            join (ascii '', '') tables), w2)))"

definition customers_query :: str where
  "customers_query =
     ascii ''\<newline>        SELECT c.first_name, c.last_name, \<newline>               (SELECT SUM(amount) FROM payment p WHERE p.customer_id = c.customer_id) as total_spent\<newline>        FROM customer c LIMIT 10;\<newline>        ''"

text \<open>\<open>float(r['total_spent'] or 0)\<close>: NULL and zero are falsy.\<close>

definition spent_of :: "customer_row \<Rightarrow> real" where
  "spent_of r = (case total_spent r of None \<Rightarrow> 0 | Some d \<Rightarrow> if d = 0 then 0 else d)"

definition avatar_of :: "real \<Rightarrow> str" where
  "avatar_of spent =
     (if spent > 150 then [0x1F451] else if spent > 100 then [0x1F48E] else [0x1F464])"

definition round_half_even :: "real \<Rightarrow> int" where
  "round_half_even x =
     (let f = \<lfloor>x\<rfloor>; d = x - of_int f
      in if d < 1 / 2 then f else if 1 / 2 < d then f + 1 else if even f then f else f + 1)"

text \<open>The format \<open>.2f\<close>: two digits after the point, the nearest such number.\<close>

definition format_2f :: "real \<Rightarrow> str" where
  "format_2f x =
     (let n = nat (round_half_even (\<bar>x\<bar> * 100))
      in (if x < 0 then ascii ''-'' else []) @ str_nat (n div 100) @ ascii ''.'' @
         [digit (n div 10), digit n])"

definition customer_line :: "customer_row \<Rightarrow> str" where
  "customer_line r =
     (let spent = spent_of r; avatar = avatar_of spent
      in ascii ''| '' @ avatar @ ascii '' | '' @ first_name r @ ascii '' '' @ last_name r @
         ascii '' | $'' @ format_2f spent @ ascii '' |\<newline>'')"

definition directory_header :: str where
  "directory_header =
     ascii ''### '' @ [0x1F465] @ ascii '' Directorio con Avatares\<newline>| Avatar | Nombre | Nivel |\<newline>| :--- | :--- | :--- |\<newline>''"

definition list_creative_customers :: "env \<Rightarrow> world \<Rightarrow> str outcome \<times> world" where
  "list_creative_customers e w =
     (case get_db_connection e w of
        (Raised x, w1) \<Rightarrow> (Raised x, w1)
      | (Returned _, w1) \<Rightarrow>
          finally_close e
            (case conn_fetch (fetch_customers e) customers_query w1 of
               (Raised x, w2) \<Rightarrow> (Raised x, w2)
             | (Returned rows, w2) \<Rightarrow>
                 (Returned (foldl (\<lambda>res r. res @ customer_line r) directory_header rows),
                  w2)))"

definition categories_query :: str where
  "categories_query =
     ascii ''\<newline>        SELECT c.name, COUNT(r.rental_id) as total_rentals\<newline>        FROM category c\<newline>        JOIN film_category fc ON c.category_id = fc.category_id\<newline>        JOIN inventory i ON fc.film_id = i.film_id\<newline>        JOIN rental r ON i.inventory_id = r.inventory_id\<newline>        GROUP BY c.name\<newline>        ORDER BY total_rentals ASC\<newline>        LIMIT 3;\<newline>        ''"

definition advice_text :: "str list \<Rightarrow> str" where
  "advice_text low_perf_cats =
     [0x1F916] @ ascii '' **Agente Analista Informa:**\<newline>'' @
     ascii ''He detectado que las categor'' @ [0xED] @ ascii ''as '' @
     join (ascii '', '') low_perf_cats @ ascii '' tienen muy poco movimiento.\<newline>'' @
     [0x1F4A1] @ ascii '' **Sugerencia:** Deber'' @ [0xED] @
     ascii ''amos implementar una promoci'' @ [0xF3] @ ascii ''n 2x1 en estas categor'' @
     [0xED] @ ascii ''as este fin de semana para liberar inventario.''"

definition business_advisor_agent :: "env \<Rightarrow> world \<Rightarrow> str outcome \<times> world" where
  "business_advisor_agent e w =
     (case get_db_connection e w of
        (Raised x, w1) \<Rightarrow> (Raised x, w1)
      | (Returned _, w1) \<Rightarrow>
          finally_close e
            (case conn_fetch (fetch_categories e) categories_query w1 of
               (Raised x, w2) \<Rightarrow> (Raised x, w2)
             | (Returned low_perf_cats, w2) \<Rightarrow> (Returned (advice_text low_perf_cats), w2)))"

section \<open>What PostgreSQL answers to the customer query\<close>

text \<open>
  The query of \<open>list_creative_customers\<close> reads two tables. Its answer on given table
  contents, by the meaning of the SQL text: the first ten rows of \<open>customer\<close> in scan
  order (\<open>LIMIT 10\<close>), each with the sum of its payments, NULL when it has none.
\<close>

record customer =
  customer_id :: int
  c_first_name :: str
  c_last_name :: str

record payment =
  p_customer_id :: int
  amount :: real




section \<open>Observations and sample surroundings\<close>

text \<open>The driver calls an operation added to the world, and the first database error
  (\<open>asyncpg.PostgresError\<close>) the \<open>try\<close> block of \<open>run_select_query\<close> meets, if any.\<close>

definition issued :: "world \<Rightarrow> world \<Rightarrow> call list" where
  "issued w w' = drop (length (calls w)) (calls w')"

text \<open>One handle was opened, first; it was closed once, last.\<close>

definition closed_once :: "call list \<Rightarrow> bool" where
  "closed_once new =
     (new \<noteq> [] \<and> hd new = Connect \<and> last new = Close \<and>
      count_list new Connect = 1 \<and> count_list new Close = 1)"

definition db_error :: "env \<Rightarrow> str \<Rightarrow> str option" where
  "db_error e query =
     (case execute_res e READ_ONLY of
        Raised (PostgresError m) \<Rightarrow> Some m
      | Raised _ \<Rightarrow> None
      | Returned _ \<Rightarrow>
          (case fetch_res e query of Raised (PostgresError m) \<Rightarrow> Some m | _ \<Rightarrow> None))"

text \<open>
  Sample tables for the worked inputs below. They are the Unicode tables on ASCII and on
  Latin-1, and on the long s, the dotless i and the two st ligatures; \<open>sample_space\<close> is
  the whole of \<open>str.isspace\<close>. Elsewhere \<open>sample_upper\<close> leaves a code point as it is.
\<close>

definition sample_upper :: "codepoint \<Rightarrow> str" where
  "sample_upper c =
     (if 97 \<le> c \<and> c \<le> 122 then [c - 32]
      else if c = 0xB5 then [0x39C]
      else if c = 0xDF then [0x53, 0x53]
      else if 0xE0 \<le> c \<and> c \<le> 0xFE \<and> c \<noteq> 0xF7 then [c - 32]
      else if c = 0xFF then [0x178]
      else if c = 0x131 then [0x49]
      else if c = 0x17F then [0x53]
      else if c = 0xFB05 \<or> c = 0xFB06 then [0x53, 0x54]
      else [c])"

definition sample_space :: "codepoint \<Rightarrow> bool" where
  "sample_space c =
     ((9 \<le> c \<and> c \<le> 13) \<or> (28 \<le> c \<and> c \<le> 32) \<or> c = 0x85 \<or> c = 0xA0 \<or> c = 0x1680 \<or>
      (0x2000 \<le> c \<and> c \<le> 0x200A) \<or> c = 0x2028 \<or> c = 0x2029 \<or> c = 0x202F \<or>
      c = 0x205F \<or> c = 0x3000)"

definition world0 :: world where
  "world0 = \<lparr>log_file = [], calls = []\<rparr>"

definition env_ok :: env where
  "env_ok =
     \<lparr>upper_of = sample_upper, isspace = sample_space,
      now = ascii ''2024-05-01 12:00:00'', log_res = Returned (),
      connect_res = Returned (),
      execute_res = (\<lambda>_. Returned ()),
      fetch_res = (\<lambda>_. Returned [[(ascii ''first_name'', ascii ''MARY'')]]),
      fetch_tables = Returned [ascii ''actor'', ascii ''film''],
      fetch_customers =
        Returned
          [\<lparr>first_name = ascii ''MARY'', last_name = ascii ''SMITH'', total_spent = Some 200\<rparr>,
           \<lparr>first_name = ascii ''LINDA'', last_name = ascii ''WILLIAMS'',
            total_spent = Some 120\<rparr>,
           \<lparr>first_name = ascii ''JOHN'', last_name = ascii ''DOE'', total_spent = Some 0\<rparr>,
           \<lparr>first_name = ascii ''ANN'', last_name = ascii ''LEE'', total_spent = None\<rparr>],
      fetch_categories = Returned [ascii ''Music'', ascii ''Travel'', ascii ''Horror''],
      close_res = Returned ()\<rparr>"

definition env_down :: env where
  "env_down = env_ok\<lparr>connect_res := Raised (OtherException (ascii ''connection refused''))\<rparr>"

definition env_db_error :: env where
  "env_db_error =
     env_ok\<lparr>fetch_res := (\<lambda>_. Raised (PostgresError (ascii ''relation does not exist''))),
            fetch_tables := Raised (PostgresError (ascii ''permission denied''))\<rparr>"

definition env_log_fails :: env where
  "env_log_fails =
     env_db_error\<lparr>log_res := Raised (OtherException (ascii ''Permission denied''))\<rparr>"

definition env_close_fails :: env where
  "env_close_fails =
     env_ok\<lparr>close_res := Raised (OtherException (ascii ''connection is closed''))\<rparr>"



section \<open>Strings: substring and first match\<close>

lemma startswith_iff: "startswith s p \<longleftrightarrow> (\<exists>b. s = p @ b)"
  unfolding startswith_def by (metis append_eq_conv_conj append_take_drop_id)

text \<open>\<open>str_in\<close> is plain substring containment: no word boundary is looked at.\<close>

lemma str_in_iff: "str_in p s \<longleftrightarrow> (\<exists>a b. s = a @ p @ b)"
proof (induction s)
  case Nil
  then show ?case by simp
next
  case (Cons c s)
  show ?case
  proof
    assume "str_in p (c # s)"
    then consider "startswith (c # s) p" | "str_in p s" by auto
    then show "\<exists>a b. c # s = a @ p @ b"
    proof cases
      case 1
      then obtain b where "c # s = p @ b" by (auto simp: startswith_iff)
      then have "c # s = [] @ p @ b" by simp
      then show ?thesis by blast
    next
      case 2
      then obtain a b where "s = a @ p @ b" using Cons.IH by blast
      then have "c # s = (c # a) @ p @ b" by simp
      then show ?thesis by blast
    qed
  next
    assume "\<exists>a b. c # s = a @ p @ b"
    then obtain a b where ab: "c # s = a @ p @ b" by blast
    show "str_in p (c # s)"
    proof (cases a)
      case Nil
      with ab have "startswith (c # s) p" by (auto simp: startswith_iff)
      then show ?thesis by simp
    next
      case (Cons c' a')
      with ab have "s = a' @ p @ b" by simp
      then have "str_in p s" using Cons.IH by blast
      then show ?thesis by simp
    qed
  qed
qed

lemma find_append_first:
  "find P (xs @ ys) = (case find P xs of None \<Rightarrow> find P ys | Some x \<Rightarrow> Some x)"
  by (induction xs) auto

lemma find_Some_props:
  "find P xs = Some x \<Longrightarrow>
     x \<in> set xs \<and> P x \<and> (\<forall>y \<in> set (takeWhile (\<lambda>y. y \<noteq> x) xs). \<not> P y)"
proof (induction xs)
  case Nil
  then show ?case by simp
next
  case (Cons a xs)
  show ?case
  proof (cases "P a")
    case True
    with Cons.prems have "x = a" by simp
    with True show ?thesis by simp
  next
    case False
    with Cons.prems have "find P xs = Some x" by simp
    from Cons.IH [OF this] have ih: "x \<in> set xs" "P x"
      "\<forall>y \<in> set (takeWhile (\<lambda>y. y \<noteq> x) xs). \<not> P y" by simp_all
    have "\<forall>y \<in> set (takeWhile (\<lambda>y. y \<noteq> x) (a # xs)). \<not> P y"
    proof (cases "a = x")
      case True
      then show ?thesis by simp
    next
      case ne: False
      then show ?thesis using ih(3) False by simp
    qed
    moreover have "x \<in> set (a # xs)" using ih(1) by simp
    ultimately show ?thesis using ih(2) by blast
  qed
qed

lemma find_in_prefix:
  assumes "P x"
  shows "\<exists>y. find P (xs @ x # ys) = Some y \<and> y \<in> set (xs @ [x]) \<and>
              ((\<forall>z \<in> set xs. \<not> P z) \<longrightarrow> y = x)"
proof (cases "find P xs")
  case None
  then have "find P (xs @ x # ys) = Some x" using assms by (simp add: find_append_first)
  then show ?thesis by simp
next
  case (Some y)
  then have "find P (xs @ x # ys) = Some y" by (simp add: find_append_first)
  moreover from Some have "y \<in> set xs" "P y" by (auto dest: find_Some_props)
  ultimately show ?thesis by auto
qed

lemma separator_before_last:
  assumes "s = a @ p @ b" and "b \<noteq> []"
  shows "str_in p (butlast s)"
proof -
  from assms have "butlast s = a @ p @ butlast b" by (simp add: butlast_append)
  then show ?thesis using str_in_iff by blast
qed

lemma ascii_semicolon: "ascii '';'' = [59]"
  by (simp add: ascii_def)

lemma separator_only_last:
  "s = body @ ascii '';'' \<Longrightarrow> butlast s = body"
  by (simp add: ascii_semicolon)

section \<open>The three checks\<close>

lemma gate_cases:
  "gate e q =
     (if \<not> startswith (strip e (upper e q)) (ascii ''SELECT'') then Rejected NotSelect
      else case find (\<lambda>p. str_in p (strip e (upper e q))) PALABRAS_PROHIBIDAS of
             Some p \<Rightarrow> Rejected (ForbiddenKeyword p)
           | None \<Rightarrow> if str_in (ascii '';'') (butlast (strip e q)) then Rejected MultiStatement
                     else Allowed q)"
  by (simp add: gate_def Let_def)

text \<open>\<open>run_select_query\<close> does what \<open>gate\<close> decides: on a rejection it writes the alert
  and then returns the message, otherwise it goes on to the database with the query as
  given.\<close>

lemma run_select_query_gate:
  "run_select_query e q w =
     (case gate e q of
        Rejected r \<Rightarrow>
          then_return (registrar_alerta_seguridad e q (motivo r) w) (mensaje r)
      | Allowed q' \<Rightarrow> run_select_query_exec e q' w)"
  by (simp add: run_select_query_def gate_def Let_def split: option.splits)

lemma rsq_rejected_logged:
  "gate e q = Rejected r \<Longrightarrow> log_res e = Returned () \<Longrightarrow>
     run_select_query e q w =
       (Returned (mensaje r), w\<lparr>log_file := log_file w @ alert_line (now e) (motivo r) q\<rparr>)"
  by (simp add: run_select_query_gate registrar_alerta_seguridad_def then_return_def)

lemma rsq_rejected_log_raises:
  "gate e q = Rejected r \<Longrightarrow> log_res e = Raised x \<Longrightarrow>
     run_select_query e q w = (Raised x, w)"
  by (simp add: run_select_query_gate registrar_alerta_seguridad_def then_return_def)

lemma rsq_allowed:
  "gate e q = Allowed q \<Longrightarrow> run_select_query e q w = run_select_query_exec e q w"
  by (simp add: run_select_query_gate)

text \<open>
  C1 (as amended). An input whose uppercased, trimmed text begins with \<open>SELECT\<close> and
  contains a forbidden word anywhere, as a plain substring (so also inside a longer
  identifier or a string literal), is rejected with \<open>ForbiddenKeyword\<close>. The word named is
  the first word of \<open>PALABRAS_PROHIBIDAS\<close>, in list order, that occurs: the word at hand
  when no earlier word of the list occurs too. When the alert is written, the reason
  logged and the message returned name the same word.
\<close>

theorem C1_forbidden_keyword_first:
  assumes "startswith (strip e (upper e q)) (ascii ''SELECT'')"
    and "PALABRAS_PROHIBIDAS = before @ palabra # after"
    and "strip e (upper e q) = a @ palabra @ b"
  shows "\<exists>first. first \<in> set (before @ [palabra]) \<and> str_in first (strip e (upper e q)) \<and>
           (\<forall>p \<in> set (takeWhile (\<lambda>p. p \<noteq> first) PALABRAS_PROHIBIDAS).
              \<not> str_in p (strip e (upper e q))) \<and>
           ((\<forall>p \<in> set before. \<not> str_in p (strip e (upper e q))) \<longrightarrow> first = palabra) \<and>
           gate e q = Rejected (ForbiddenKeyword first) \<and>
           (log_res e = Returned () \<longrightarrow>
              run_select_query e q w =
                (Returned (ascii ''ERROR DE SEGURIDAD: Uso prohibido de '' @ [0x27] @ first @
                           [0x27] @ ascii ''.''),
                 w\<lparr>log_file := log_file w @
                     alert_line (now e) (ascii ''PALABRA PROHIBIDA DETECTADA: '' @ first) q\<rparr>))"
proof -
  let ?P = "\<lambda>p. str_in p (strip e (upper e q))"
  have "?P palabra" using assms(3) str_in_iff by blast
  then obtain first where f: "find ?P (before @ palabra # after) = Some first"
    "first \<in> set (before @ [palabra])" "(\<forall>z \<in> set before. \<not> ?P z) \<longrightarrow> first = palabra"
    using find_in_prefix [of ?P palabra before after] by blast
  from f(1) have ff: "find ?P PALABRAS_PROHIBIDAS = Some first" using assms(2) by simp
  from find_Some_props [OF ff] have p: "?P first"
    "\<forall>p \<in> set (takeWhile (\<lambda>p. p \<noteq> first) PALABRAS_PROHIBIDAS). \<not> ?P p" by blast+
  have g: "gate e q = Rejected (ForbiddenKeyword first)"
    using assms(1) ff by (simp add: gate_cases)
  have "log_res e = Returned () \<longrightarrow>
          run_select_query e q w =
            (Returned (ascii ''ERROR DE SEGURIDAD: Uso prohibido de '' @ [0x27] @ first @
                       [0x27] @ ascii ''.''),
             w\<lparr>log_file := log_file w @
                 alert_line (now e) (ascii ''PALABRA PROHIBIDA DETECTADA: '' @ first) q\<rparr>)"
    using rsq_rejected_logged [OF g] by simp
  with f(2,3) p g show ?thesis by blast
qed

text \<open>At a column named \<open>updated_at\<close> the word \<open>UPDATE\<close> is found inside the identifier;
  the long-s-t ligature uppercases to \<open>ST\<close>, so \<open>TRUNCATE\<close> is found, and named
  before \<open>INSERT\<close>.\<close>

theorem C1_witness:
  "strip env_ok (upper env_ok (ascii ''select updated_at from t'')) =
     ascii ''SELECT '' @ ascii ''UPDATE'' @ ascii ''D_AT FROM T'' \<and>
   gate env_ok (ascii ''select updated_at from t'') =
     Rejected (ForbiddenKeyword (ascii ''UPDATE'')) \<and>
   fst (run_select_query env_ok (ascii ''select updated_at from t'') world0) =
     Returned (ascii ''ERROR DE SEGURIDAD: Uso prohibido de '' @ [0x27] @ ascii ''UPDATE'' @
               [0x27] @ ascii ''.'') \<and>
   strip env_ok (upper env_ok (ascii ''select '' @ [0xFB05] @ ascii ''runcate, insert'')) =
     ascii ''SELECT S'' @ ascii ''TRUNCATE'' @ ascii '', INSERT'' \<and>
   gate env_ok (ascii ''select '' @ [0xFB05] @ ascii ''runcate, insert'') =
     Rejected (ForbiddenKeyword (ascii ''TRUNCATE''))"
proof -
  let ?q = "ascii ''select updated_at from t''"
  let ?q2 = "ascii ''select '' @ [0xFB05] @ ascii ''runcate, insert''"
  have h1: "startswith (strip env_ok (upper env_ok ?q)) (ascii ''SELECT'')" by code_simp
  have h2: "PALABRAS_PROHIBIDAS = [ascii ''DROP'', ascii ''DELETE''] @ ascii ''UPDATE'' #
              [ascii ''TRUNCATE'', ascii ''ALTER'', ascii ''GRANT'', ascii ''INSERT'']"
    by (simp add: PALABRAS_PROHIBIDAS_def)
  have h3: "strip env_ok (upper env_ok ?q) =
    ascii ''SELECT '' @ ascii ''UPDATE'' @ ascii ''D_AT FROM T''" by code_simp
  have h4: "\<forall>p \<in> set [ascii ''DROP'', ascii ''DELETE''].
    \<not> str_in p (strip env_ok (upper env_ok ?q))" by code_simp
  have l: "log_res env_ok = Returned ()" by (simp add: env_ok_def)
  from C1_forbidden_keyword_first [OF h1 h2 h3, of world0] h4 l
  have r1: "gate env_ok ?q = Rejected (ForbiddenKeyword (ascii ''UPDATE'')) \<and>
    fst (run_select_query env_ok ?q world0) =
     Returned (ascii ''ERROR DE SEGURIDAD: Uso prohibido de '' @ [0x27] @ ascii ''UPDATE'' @
               [0x27] @ ascii ''.'')" by auto
  have k1: "startswith (strip env_ok (upper env_ok ?q2)) (ascii ''SELECT'')" by code_simp
  have k2: "PALABRAS_PROHIBIDAS =
              [ascii ''DROP'', ascii ''DELETE'', ascii ''UPDATE''] @ ascii ''TRUNCATE'' #
              [ascii ''ALTER'', ascii ''GRANT'', ascii ''INSERT'']"
    by (simp add: PALABRAS_PROHIBIDAS_def)
  have k3: "strip env_ok (upper env_ok ?q2) =
    ascii ''SELECT S'' @ ascii ''TRUNCATE'' @ ascii '', INSERT''" by code_simp
  have k4: "\<forall>p \<in> set [ascii ''DROP'', ascii ''DELETE'', ascii ''UPDATE''].
    \<not> str_in p (strip env_ok (upper env_ok ?q2))" by code_simp
  from C1_forbidden_keyword_first [OF k1 k2 k3, of world0] k4
  have r2: "gate env_ok ?q2 = Rejected (ForbiddenKeyword (ascii ''TRUNCATE''))" by auto
  from h3 r1 k3 r2 show ?thesis by blast
qed

text \<open>
  The claim as written fails where two forbidden words occur: the input contains
  \<open>INSERT\<close>, and the outcome names \<open>DROP\<close>, which precedes it in the list.
\<close>

theorem C1_counterexample:
  "startswith (strip env_ok (upper env_ok (ascii ''select insert, drop''))) (ascii ''SELECT'') \<and>
   ascii ''INSERT'' \<in> set PALABRAS_PROHIBIDAS \<and>
   strip env_ok (upper env_ok (ascii ''select insert, drop'')) =
     ascii ''SELECT '' @ ascii ''INSERT'' @ ascii '', DROP'' \<and>
   gate env_ok (ascii ''select insert, drop'') = Rejected (ForbiddenKeyword (ascii ''DROP'')) \<and>
   gate env_ok (ascii ''select insert, drop'') \<noteq> Rejected (ForbiddenKeyword (ascii ''INSERT''))"
  by code_simp

text \<open>
  C2 (as amended). An input whose uppercased, trimmed text does not begin with \<open>SELECT\<close>
  is rejected with \<open>NotSelect\<close>. \<open>run_select_query\<close> then writes the alert and returns the
  security-error string; when the write to the log raises, that error reaches the
  caller in place of the string.
\<close>

theorem C2_not_select_rejected:
  assumes "\<not> startswith (strip e (upper e q)) (ascii ''SELECT'')"
  shows "gate e q = Rejected NotSelect \<and>
         (log_res e = Returned () \<longrightarrow>
            run_select_query e q w =
              (Returned (ascii ''ERROR DE SEGURIDAD: Solo se permiten consultas SELECT.''),
               w\<lparr>log_file := log_file w @
                   alert_line (now e)
                     (ascii ''COMANDO NO AUTORIZADO (No empez'' @ [0xF3] @
                      ascii '' con SELECT)'') q\<rparr>)) \<and>
         (\<forall>x. log_res e = Raised x \<longrightarrow> run_select_query e q w = (Raised x, w))"
proof -
  have g: "gate e q = Rejected NotSelect" using assms by (simp add: gate_cases)
  have a: "log_res e = Returned () \<longrightarrow>
            run_select_query e q w =
              (Returned (ascii ''ERROR DE SEGURIDAD: Solo se permiten consultas SELECT.''),
               w\<lparr>log_file := log_file w @
                   alert_line (now e)
                     (ascii ''COMANDO NO AUTORIZADO (No empez'' @ [0xF3] @
                      ascii '' con SELECT)'') q\<rparr>)"
    using rsq_rejected_logged [OF g] by simp
  have b: "\<forall>x. log_res e = Raised x \<longrightarrow> run_select_query e q w = (Raised x, w)"
    using rsq_rejected_log_raises [OF g] by blast
  from g a b show ?thesis by blast
qed

text \<open>The empty string, a \<open>DROP\<close> statement, and a \<open>SELECT\<close> behind a zero-width space
  (which \<open>strip\<close> does not remove) are all answered with the string.\<close>

theorem C2_witness:
  "\<not> startswith (strip env_ok (upper env_ok [])) (ascii ''SELECT'') \<and>
   gate env_ok [] = Rejected NotSelect \<and>
   fst (run_select_query env_ok [] world0) =
     Returned (ascii ''ERROR DE SEGURIDAD: Solo se permiten consultas SELECT.'') \<and>
   \<not> startswith (strip env_ok (upper env_ok (ascii ''DROP TABLE customer;'')))
       (ascii ''SELECT'') \<and>
   gate env_ok (ascii ''DROP TABLE customer;'') = Rejected NotSelect \<and>
   fst (run_select_query env_ok (ascii ''DROP TABLE customer;'') world0) =
     Returned (ascii ''ERROR DE SEGURIDAD: Solo se permiten consultas SELECT.'') \<and>
   gate env_ok ([0x200B] @ ascii ''SELECT 1'') = Rejected NotSelect \<and>
   fst (run_select_query env_ok ([0x200B] @ ascii ''SELECT 1'') world0) =
     Returned (ascii ''ERROR DE SEGURIDAD: Solo se permiten consultas SELECT.'')"
proof -
  let ?q2 = "ascii ''DROP TABLE customer;''"
  let ?q3 = "[0x200B] @ ascii ''SELECT 1''"
  have h: "\<not> startswith (strip env_ok (upper env_ok [])) (ascii ''SELECT'')" by code_simp
  have k: "\<not> startswith (strip env_ok (upper env_ok ?q2)) (ascii ''SELECT'')" by code_simp
  have z: "\<not> startswith (strip env_ok (upper env_ok ?q3)) (ascii ''SELECT'')" by code_simp
  have l: "log_res env_ok = Returned ()" by (simp add: env_ok_def)
  from C2_not_select_rejected [OF h, of world0] l
  have r1: "gate env_ok [] = Rejected NotSelect \<and>
    fst (run_select_query env_ok [] world0) =
     Returned (ascii ''ERROR DE SEGURIDAD: Solo se permiten consultas SELECT.'')" by simp
  from C2_not_select_rejected [OF k, of world0] l
  have r2: "gate env_ok ?q2 = Rejected NotSelect \<and>
    fst (run_select_query env_ok ?q2 world0) =
     Returned (ascii ''ERROR DE SEGURIDAD: Solo se permiten consultas SELECT.'')" by simp
  from C2_not_select_rejected [OF z, of world0] l
  have r3: "gate env_ok ?q3 = Rejected NotSelect \<and>
    fst (run_select_query env_ok ?q3 world0) =
     Returned (ascii ''ERROR DE SEGURIDAD: Solo se permiten consultas SELECT.'')" by simp
  from h k r1 r2 r3 show ?thesis by blast
qed

text \<open>
  The claim as written fails when the log cannot be written: the empty string is
  rejected, and the caller receives the error of the write, not the string.
\<close>

theorem C2_counterexample:
  "\<not> startswith (strip env_log_fails (upper env_log_fails [])) (ascii ''SELECT'') \<and>
   gate env_log_fails [] = Rejected NotSelect \<and>
   fst (run_select_query env_log_fails [] world0) =
     Raised (OtherException (ascii ''Permission denied'')) \<and>
   fst (run_select_query env_log_fails [] world0) \<noteq>
     Returned (ascii ''ERROR DE SEGURIDAD: Solo se permiten consultas SELECT.'')"
  by code_simp

text \<open>
  C3. An input that begins with \<open>SELECT\<close> and contains no forbidden word is rejected
  with \<open>MultiStatement\<close> when a \<open>;\<close> stands before the last character of the trimmed
  original text. When the only \<open>;\<close> of the trimmed text is its last character, this
  check does not reject it: the outcome is never \<open>MultiStatement\<close>, and such a
  \<open>SELECT\<close> without forbidden word is allowed and goes on to the database.
\<close>

theorem C3_multi_statement:
  "(startswith (strip e (upper e q)) (ascii ''SELECT'') \<and>
    (\<forall>p \<in> set PALABRAS_PROHIBIDAS. \<not> str_in p (strip e (upper e q))) \<and>
    strip e q = a @ ascii '';'' @ b \<and> b \<noteq> [] \<longrightarrow>
      gate e q = Rejected MultiStatement \<and>
      (log_res e = Returned () \<longrightarrow>
         run_select_query e q w =
           (Returned (ascii ''ERROR DE SEGURIDAD: No se permiten m'' @ [0xFA] @
                      ascii ''ltiples sentencias.''),
            w\<lparr>log_file := log_file w @
                alert_line (now e)
                  (ascii ''INTENTO DE MULTI-QUERY (Inyecci'' @ [0xF3] @ ascii ''n)'') q\<rparr>))) \<and>
   (strip e q = body @ ascii '';'' \<and> \<not> str_in (ascii '';'') body \<longrightarrow>
      gate e q \<noteq> Rejected MultiStatement \<and>
      (startswith (strip e (upper e q)) (ascii ''SELECT'') \<and>
       (\<forall>p \<in> set PALABRAS_PROHIBIDAS. \<not> str_in p (strip e (upper e q))) \<longrightarrow>
         gate e q = Allowed q \<and> run_select_query e q w = run_select_query_exec e q w))"
proof (intro conjI impI)
  assume h: "startswith (strip e (upper e q)) (ascii ''SELECT'') \<and>
    (\<forall>p \<in> set PALABRAS_PROHIBIDAS. \<not> str_in p (strip e (upper e q))) \<and>
    strip e q = a @ ascii '';'' @ b \<and> b \<noteq> []"
  then have n: "find (\<lambda>p. str_in p (strip e (upper e q))) PALABRAS_PROHIBIDAS = None"
    by (simp add: find_None_iff)
  from h have m: "str_in (ascii '';'') (butlast (strip e q))"
    using separator_before_last by blast
  from h n m show g: "gate e q = Rejected MultiStatement" by (simp add: gate_cases)
  assume "log_res e = Returned ()"
  from rsq_rejected_logged [OF g this]
  show "run_select_query e q w =
           (Returned (ascii ''ERROR DE SEGURIDAD: No se permiten m'' @ [0xFA] @
                      ascii ''ltiples sentencias.''),
            w\<lparr>log_file := log_file w @
                alert_line (now e)
                  (ascii ''INTENTO DE MULTI-QUERY (Inyecci'' @ [0xF3] @ ascii ''n)'') q\<rparr>)"
    by simp
next
  assume h: "strip e q = body @ ascii '';'' \<and> \<not> str_in (ascii '';'') body"
  then have m: "\<not> str_in (ascii '';'') (butlast (strip e q))"
    by (simp add: separator_only_last)
  then show "gate e q \<noteq> Rejected MultiStatement"
    by (simp add: gate_cases split: option.splits)
  assume s: "startswith (strip e (upper e q)) (ascii ''SELECT'') \<and>
       (\<forall>p \<in> set PALABRAS_PROHIBIDAS. \<not> str_in p (strip e (upper e q)))"
  then have n: "find (\<lambda>p. str_in p (strip e (upper e q))) PALABRAS_PROHIBIDAS = None"
    by (simp add: find_None_iff)
  from s n m show g: "gate e q = Allowed q" by (simp add: gate_cases)
  then show "run_select_query e q w = run_select_query_exec e q w"
    by (rule rsq_allowed)
qed

text \<open>Two statements are rejected; one trailing \<open>;\<close> is tolerated, also when spaces or
  a no-break space follow it.\<close>

theorem C3_witness:
  "gate env_ok (ascii ''SELECT * FROM customer; SELECT * FROM payment'') =
     Rejected MultiStatement \<and>
   gate env_ok (ascii ''SELECT first_name FROM customer LIMIT 1;'') =
     Allowed (ascii ''SELECT first_name FROM customer LIMIT 1;'') \<and>
   gate env_ok (ascii ''SELECT 1;'' @ [0xA0]) = Allowed (ascii ''SELECT 1;'' @ [0xA0]) \<and>
   gate env_ok (ascii '' select 1 ; '') \<noteq> Rejected MultiStatement"
proof -
  let ?q1 = "ascii ''SELECT * FROM customer; SELECT * FROM payment''"
  let ?q2 = "ascii ''SELECT first_name FROM customer LIMIT 1;''"
  let ?q3 = "ascii '' select 1 ; ''"
  let ?q4 = "ascii ''SELECT 1;'' @ [0xA0]"
  have a1: "startswith (strip env_ok (upper env_ok ?q1)) (ascii ''SELECT'') \<and>
    (\<forall>p \<in> set PALABRAS_PROHIBIDAS. \<not> str_in p (strip env_ok (upper env_ok ?q1))) \<and>
    strip env_ok ?q1 =
      ascii ''SELECT * FROM customer'' @ ascii '';'' @ ascii '' SELECT * FROM payment'' \<and>
    ascii '' SELECT * FROM payment'' \<noteq> []" by code_simp
  have a2: "strip env_ok ?q2 = ascii ''SELECT first_name FROM customer LIMIT 1'' @ ascii '';'' \<and>
    \<not> str_in (ascii '';'') (ascii ''SELECT first_name FROM customer LIMIT 1'')" by code_simp
  have b2: "startswith (strip env_ok (upper env_ok ?q2)) (ascii ''SELECT'') \<and>
    (\<forall>p \<in> set PALABRAS_PROHIBIDAS. \<not> str_in p (strip env_ok (upper env_ok ?q2)))"
    by code_simp
  have a3: "strip env_ok ?q3 = ascii ''select 1 '' @ ascii '';'' \<and>
    \<not> str_in (ascii '';'') (ascii ''select 1 '')" by code_simp
  have a4: "strip env_ok ?q4 = ascii ''SELECT 1'' @ ascii '';'' \<and>
    \<not> str_in (ascii '';'') (ascii ''SELECT 1'')" by code_simp
  have b4: "startswith (strip env_ok (upper env_ok ?q4)) (ascii ''SELECT'') \<and>
    (\<forall>p \<in> set PALABRAS_PROHIBIDAS. \<not> str_in p (strip env_ok (upper env_ok ?q4)))"
    by code_simp
  from C3_multi_statement
    [where e = env_ok and q = ?q1 and a = "ascii ''SELECT * FROM customer''"
       and b = "ascii '' SELECT * FROM payment''" and w = world0 and body = "[]"] a1
  have r1: "gate env_ok ?q1 = Rejected MultiStatement" by blast
  from C3_multi_statement
    [where e = env_ok and q = ?q2 and a = "[]" and b = "[]" and w = world0
       and body = "ascii ''SELECT first_name FROM customer LIMIT 1''"] a2 b2
  have r2: "gate env_ok ?q2 = Allowed ?q2" by blast
  from C3_multi_statement
    [where e = env_ok and q = ?q3 and a = "[]" and b = "[]" and w = world0
       and body = "ascii ''select 1 ''"] a3
  have r3: "gate env_ok ?q3 \<noteq> Rejected MultiStatement" by blast
  from C3_multi_statement
    [where e = env_ok and q = ?q4 and a = "[]" and b = "[]" and w = world0
       and body = "ascii ''SELECT 1''"] a4 b4
  have r4: "gate env_ok ?q4 = Allowed ?q4" by blast
  from r1 r2 r3 r4 show ?thesis by blast
qed

section \<open>The driver calls of \<open>run_select_query\<close>\<close>

lemmas driver_defs = get_db_connection_def conn_execute_def conn_fetch_def conn_close_def
  registrar_alerta_seguridad_def finally_close_def then_return_def

lemma issued_append: "calls w' = calls w @ new \<Longrightarrow> issued w w' = new"
  by (simp add: issued_def)

lemma gate_Allowed_same: "gate e q = Allowed q' \<Longrightarrow> q' = q"
  by (simp add: gate_cases split: if_splits option.splits)

lemma gate_Allowed_iff:
  "gate e q = Allowed q \<longleftrightarrow>
     startswith (strip e (upper e q)) (ascii ''SELECT'') \<and>
     (\<forall>p \<in> set PALABRAS_PROHIBIDAS. \<not> str_in p (strip e (upper e q))) \<and>
     \<not> str_in (ascii '';'') (butlast (strip e q))"
proof (cases "find (\<lambda>p. str_in p (strip e (upper e q))) PALABRAS_PROHIBIDAS")
  case None
  then have "\<forall>p \<in> set PALABRAS_PROHIBIDAS. \<not> str_in p (strip e (upper e q))"
    by (simp add: find_None_iff)
  with None show ?thesis by (simp add: gate_cases)
next
  case (Some p)
  then have "p \<in> set PALABRAS_PROHIBIDAS \<and> str_in p (strip e (upper e q))"
    using find_Some_props [of "\<lambda>p. str_in p (strip e (upper e q))" PALABRAS_PROHIBIDAS p]
    by blast
  with Some show ?thesis by (auto simp: gate_cases)
qed

text \<open>Neither the log write nor the closing changes which calls are issued: the handle
  is closed whether or not either of them raises.\<close>

lemma exec_calls:
  "calls (snd (run_select_query_exec e q w)) =
     calls w @
       (case connect_res e of
          Raised _ \<Rightarrow> [Connect]
        | Returned _ \<Rightarrow>
            (case execute_res e READ_ONLY of
               Raised _ \<Rightarrow> [Connect, Execute READ_ONLY, Close]
             | Returned _ \<Rightarrow> [Connect, Execute READ_ONLY, Fetch q, Close]))"
  by (simp add: run_select_query_exec_def run_select_query_try_def driver_defs
      split: outcome.splits exn.splits)


lemma exec_result:
  "fst (run_select_query_exec e q w) =
     (case connect_res e of
        Raised x \<Rightarrow> Raised x
      | Returned _ \<Rightarrow>
          (case close_res e of
             Raised x \<Rightarrow> Raised x
           | Returned _ \<Rightarrow>
               (case (case execute_res e READ_ONLY of
                        Raised x \<Rightarrow> Raised x
                      | Returned _ \<Rightarrow>
                          (case fetch_res e q of
                             Raised x \<Rightarrow> Raised x
                           | Returned rows \<Rightarrow> Returned (format_rows rows))) of
                  Returned result_text \<Rightarrow> Returned result_text
                | Raised (PostgresError m) \<Rightarrow>
                    (case log_res e of
                       Raised x \<Rightarrow> Raised x
                     | Returned _ \<Rightarrow> Returned (ascii ''ERROR DE BASE DE DATOS: '' @ m))
                | Raised (OtherException m) \<Rightarrow> Returned (ascii ''ERROR DEL SISTEMA: '' @ m)
                | Raised (BaseExceptionOnly m) \<Rightarrow> Raised (BaseExceptionOnly m))))"
  by (simp add: run_select_query_exec_def run_select_query_try_def driver_defs
      split: outcome.splits exn.splits)

lemma rsq_issued:
  "issued w (snd (run_select_query e q w)) =
     (case gate e q of
        Rejected _ \<Rightarrow> []
      | Allowed _ \<Rightarrow>
          (case connect_res e of
             Raised _ \<Rightarrow> [Connect]
           | Returned _ \<Rightarrow>
               (case execute_res e READ_ONLY of
                  Raised _ \<Rightarrow> [Connect, Execute READ_ONLY, Close]
                | Returned _ \<Rightarrow> [Connect, Execute READ_ONLY, Fetch q, Close])))"
proof (cases "gate e q")
  case (Rejected r)
  then show ?thesis
    by (simp add: run_select_query_gate registrar_alerta_seguridad_def then_return_def
        issued_def split: outcome.splits)
next
  case (Allowed q')
  then have "q' = q" by (rule gate_Allowed_same)
  with Allowed show ?thesis
    by (simp add: run_select_query_gate issued_append [OF exec_calls])
qed

lemma rsq_calls:
  "calls (snd (run_select_query e q w)) = calls w @ issued w (snd (run_select_query e q w))"
proof (cases "gate e q")
  case (Rejected r)
  then show ?thesis
    by (simp add: run_select_query_gate registrar_alerta_seguridad_def then_return_def
        issued_def split: outcome.splits)
next
  case (Allowed q')
  then have "q' = q" by (rule gate_Allowed_same)
  with Allowed show ?thesis
    by (simp add: run_select_query_gate issued_append [OF exec_calls] exec_calls)
qed

text \<open>
  C4 (as amended). The driver calls \<open>run_select_query\<close> adds are \<open>new\<close>. A query is allowed
  exactly when it passes the three checks. On a rejection no driver call is issued at
  all, so no connection is opened, whether or not the alert can be written; the
  security-error string is returned when the alert was written, and the error of the
  log write is raised otherwise. Any driver call, and so any \<open>Fetch\<close>, implies the query
  was allowed, and the text fetched is the caller's text itself, not the uppercased one.
\<close>

theorem C4_only_allowed_reaches_database:
  fixes e q w
  defines "new \<equiv> issued w (snd (run_select_query e q w))"
  shows "calls (snd (run_select_query e q w)) = calls w @ new \<and>
   (gate e q = Allowed q \<longleftrightarrow>
      startswith (strip e (upper e q)) (ascii ''SELECT'') \<and>
      (\<forall>p \<in> set PALABRAS_PROHIBIDAS. \<not> str_in p (strip e (upper e q))) \<and>
      \<not> str_in (ascii '';'') (butlast (strip e q))) \<and>
   (\<forall>r. gate e q = Rejected r \<longrightarrow>
      new = [] \<and>
      (log_res e = Returned () \<longrightarrow>
         run_select_query e q w =
           (Returned (mensaje r),
            w\<lparr>log_file := log_file w @ alert_line (now e) (motivo r) q\<rparr>)) \<and>
      (\<forall>x. log_res e = Raised x \<longrightarrow> run_select_query e q w = (Raised x, w))) \<and>
   (new \<noteq> [] \<longrightarrow> gate e q = Allowed q) \<and>
   (\<forall>sql. Fetch sql \<in> set new \<or> Execute sql \<in> set new \<longrightarrow> gate e q = Allowed q) \<and>
   (\<forall>sql. Fetch sql \<in> set new \<longrightarrow> sql = q) \<and>
   (gate e q = Allowed q \<and> connect_res e = Returned () \<and>
    execute_res e READ_ONLY = Returned () \<longrightarrow>
      new = [Connect, Execute READ_ONLY, Fetch q, Close])"
proof -
  have n: "new = (case gate e q of
        Rejected _ \<Rightarrow> []
      | Allowed _ \<Rightarrow>
          (case connect_res e of
             Raised _ \<Rightarrow> [Connect]
           | Returned _ \<Rightarrow>
               (case execute_res e READ_ONLY of
                  Raised _ \<Rightarrow> [Connect, Execute READ_ONLY, Close]
                | Returned _ \<Rightarrow> [Connect, Execute READ_ONLY, Fetch q, Close])))"
    unfolding new_def by (rule rsq_issued)
  have a: "new \<noteq> [] \<longrightarrow> gate e q = Allowed q"
    using n gate_Allowed_same [of e q] by (cases "gate e q") auto
  have c1: "calls (snd (run_select_query e q w)) = calls w @ new"
    unfolding new_def by (rule rsq_calls)
  have c3: "\<forall>r. gate e q = Rejected r \<longrightarrow>
      new = [] \<and>
      (log_res e = Returned () \<longrightarrow>
         run_select_query e q w =
           (Returned (mensaje r),
            w\<lparr>log_file := log_file w @ alert_line (now e) (motivo r) q\<rparr>)) \<and>
      (\<forall>x. log_res e = Raised x \<longrightarrow> run_select_query e q w = (Raised x, w))"
    using n by (simp add: rsq_rejected_logged rsq_rejected_log_raises)
  have c5: "\<forall>sql. Fetch sql \<in> set new \<or> Execute sql \<in> set new \<longrightarrow> gate e q = Allowed q"
    using a by auto
  have c6: "\<forall>sql. Fetch sql \<in> set new \<longrightarrow> sql = q"
    using n by (auto split: validation.splits outcome.splits)
  have c7: "gate e q = Allowed q \<and> connect_res e = Returned () \<and>
      execute_res e READ_ONLY = Returned () \<longrightarrow>
      new = [Connect, Execute READ_ONLY, Fetch q, Close]"
    using n by simp
  from c1 gate_Allowed_iff [of e q] c3 a c5 c6 c7 show ?thesis by blast
qed

text \<open>An allowed query reaches the database as given, in lower case and with a long s
  where the caller wrote them; a rejected one issues no call.\<close>

theorem C4_witness:
  "gate env_ok (ascii ''select 1'') = Allowed (ascii ''select 1'') \<and>
   issued world0 (snd (run_select_query env_ok (ascii ''select 1'') world0)) =
     [Connect, Execute (ascii ''SET SESSION CHARACTERISTICS AS TRANSACTION READ ONLY''),
      Fetch (ascii ''select 1''), Close] \<and>
   gate env_ok ([0x17F] @ ascii ''elect 1'') = Allowed ([0x17F] @ ascii ''elect 1'') \<and>
   issued world0 (snd (run_select_query env_ok ([0x17F] @ ascii ''elect 1'') world0)) =
     [Connect, Execute (ascii ''SET SESSION CHARACTERISTICS AS TRANSACTION READ ONLY''),
      Fetch ([0x17F] @ ascii ''elect 1''), Close] \<and>
   gate env_ok (ascii ''DROP TABLE customer;'') = Rejected NotSelect \<and>
   issued world0 (snd (run_select_query env_ok (ascii ''DROP TABLE customer;'') world0)) = [] \<and>
   fst (run_select_query env_ok (ascii ''DROP TABLE customer;'') world0) =
     Returned (ascii ''ERROR DE SEGURIDAD: Solo se permiten consultas SELECT.'')"
proof -
  let ?q1 = "ascii ''select 1''"
  let ?q2 = "ascii ''DROP TABLE customer;''"
  let ?q3 = "[0x17F] @ ascii ''elect 1''"
  have g1: "gate env_ok ?q1 = Allowed ?q1" by code_simp
  have g3: "gate env_ok ?q3 = Allowed ?q3" by code_simp
  have e1: "connect_res env_ok = Returned () \<and> execute_res env_ok READ_ONLY = Returned () \<and>
    log_res env_ok = Returned ()"
    by (simp add: env_ok_def)
  have g2: "gate env_ok ?q2 = Rejected NotSelect" by code_simp
  from C4_only_allowed_reaches_database [where e = env_ok and q = ?q1 and w = world0] g1 e1
  have r1: "issued world0 (snd (run_select_query env_ok ?q1 world0)) =
     [Connect, Execute READ_ONLY, Fetch ?q1, Close]" by blast
  from C4_only_allowed_reaches_database [where e = env_ok and q = ?q3 and w = world0] g3 e1
  have r5: "issued world0 (snd (run_select_query env_ok ?q3 world0)) =
     [Connect, Execute READ_ONLY, Fetch ?q3, Close]" by blast
  from C4_only_allowed_reaches_database [where e = env_ok and q = ?q2 and w = world0] g2 e1
  have r2: "run_select_query env_ok ?q2 world0 =
        (Returned (mensaje NotSelect),
         world0\<lparr>log_file := log_file world0 @
           alert_line (now env_ok) (motivo NotSelect) ?q2\<rparr>) \<and>
     issued world0 (snd (run_select_query env_ok ?q2 world0)) = []"
    by blast
  from r2 have r3: "fst (run_select_query env_ok ?q2 world0) =
     Returned (ascii ''ERROR DE SEGURIDAD: Solo se permiten consultas SELECT.'')" by simp
  from r2 have r4: "issued world0 (snd (run_select_query env_ok ?q2 world0)) = []"
    by blast
  from r1 have r1': "issued world0 (snd (run_select_query env_ok ?q1 world0)) =
     [Connect, Execute (ascii ''SET SESSION CHARACTERISTICS AS TRANSACTION READ ONLY''),
      Fetch ?q1, Close]" by (simp add: READ_ONLY_def)
  from r5 have r5': "issued world0 (snd (run_select_query env_ok ?q3 world0)) =
     [Connect, Execute (ascii ''SET SESSION CHARACTERISTICS AS TRANSACTION READ ONLY''),
      Fetch ?q3, Close]" by (simp add: READ_ONLY_def)
  from g1 r1' g3 r5' g2 r3 r4 show ?thesis by blast
qed

text \<open>
  The claim as written fails when the log cannot be written: a query naming \<open>DROP\<close> is
  rejected and no connection is opened, but the caller receives the error of the write
  and not the security-error string.
\<close>

theorem C4_counterexample:
  "gate env_log_fails (ascii ''SELECT 1; DROP TABLE customer'') =
     Rejected (ForbiddenKeyword (ascii ''DROP'')) \<and>
   issued world0
     (snd (run_select_query env_log_fails (ascii ''SELECT 1; DROP TABLE customer'') world0)) =
     [] \<and>
   fst (run_select_query env_log_fails (ascii ''SELECT 1; DROP TABLE customer'') world0) =
     Raised (OtherException (ascii ''Permission denied'')) \<and>
   fst (run_select_query env_log_fails (ascii ''SELECT 1; DROP TABLE customer'') world0) \<noteq>
     Returned (ascii ''ERROR DE SEGURIDAD: Uso prohibido de '' @ [0x27] @ ascii ''DROP'' @
               [0x27] @ ascii ''.'')"
  by code_simp

text \<open>
  C5. Once the connection of an allowed query is open, the first thing issued on it is
  the directive \<open>SET SESSION CHARACTERISTICS AS TRANSACTION READ ONLY\<close>. The caller's query
  is fetched only when that directive returned: the calls are then \<open>Connect\<close>, the
  directive, the query, \<open>Close\<close>, in this order, so the query never runs on a handle that
  was not first made read-only.
\<close>

theorem C5_read_only_before_query:
  fixes e q w
  defines "new \<equiv> issued w (snd (run_select_query e q w))"
    and "directive \<equiv> ascii ''SET SESSION CHARACTERISTICS AS TRANSACTION READ ONLY''"
  shows "(gate e q = Allowed q \<and> connect_res e = Returned () \<longrightarrow>
            take 2 new = [Connect, Execute directive]) \<and>
         (\<forall>sql. Fetch sql \<in> set new \<longrightarrow>
            sql = q \<and> gate e q = Allowed q \<and> connect_res e = Returned () \<and>
            execute_res e directive = Returned () \<and>
            new = [Connect, Execute directive, Fetch q, Close])"
proof -
  have d: "directive = READ_ONLY" by (simp add: directive_def READ_ONLY_def)
  have n: "new = (case gate e q of
        Rejected _ \<Rightarrow> []
      | Allowed _ \<Rightarrow>
          (case connect_res e of
             Raised _ \<Rightarrow> [Connect]
           | Returned _ \<Rightarrow>
               (case execute_res e READ_ONLY of
                  Raised _ \<Rightarrow> [Connect, Execute READ_ONLY, Close]
                | Returned _ \<Rightarrow> [Connect, Execute READ_ONLY, Fetch q, Close])))"
    unfolding new_def by (rule rsq_issued)
  have a: "gate e q = Allowed q \<and> connect_res e = Returned () \<longrightarrow>
            take 2 new = [Connect, Execute directive]"
    using n d by (auto split: outcome.splits)
  have b: "\<forall>sql. Fetch sql \<in> set new \<longrightarrow>
            sql = q \<and> gate e q = Allowed q \<and> connect_res e = Returned () \<and>
            execute_res e directive = Returned () \<and>
            new = [Connect, Execute directive, Fetch q, Close]"
    using n d gate_Allowed_same [of e q] by (auto split: validation.splits outcome.splits)
  from a b show ?thesis by blast
qed

text \<open>With a driver that answers, \<open>SELECT 1\<close> is fetched third, after the directive.\<close>

theorem C5_witness:
  "Fetch (ascii ''SELECT 1'') \<in>
     set (issued world0 (snd (run_select_query env_ok (ascii ''SELECT 1'') world0))) \<and>
   execute_res env_ok (ascii ''SET SESSION CHARACTERISTICS AS TRANSACTION READ ONLY'') =
     Returned () \<and>
   issued world0 (snd (run_select_query env_ok (ascii ''SELECT 1'') world0)) =
     [Connect, Execute (ascii ''SET SESSION CHARACTERISTICS AS TRANSACTION READ ONLY''),
      Fetch (ascii ''SELECT 1''), Close]"
proof -
  have h: "Fetch (ascii ''SELECT 1'') \<in>
    set (issued world0 (snd (run_select_query env_ok (ascii ''SELECT 1'') world0)))"
    by code_simp
  from C5_read_only_before_query [where e = env_ok and q = "ascii ''SELECT 1''" and w = world0] h
  show ?thesis by blast
qed

section \<open>The alert log\<close>






section \<open>The reporting operations, unfolded\<close>

lemma foldl_lines: "foldl (\<lambda>res r. res @ f r) h rows = h @ concat (map f rows)"
  by (induction rows arbitrary: h) simp_all

lemma report_results:
  "fst (list_tables e w) =
     (case connect_res e of Raised x \<Rightarrow> Raised x
      | Returned _ \<Rightarrow> (case close_res e of Raised x \<Rightarrow> Raised x
          | Returned _ \<Rightarrow> (case fetch_tables e of Raised x \<Rightarrow> Raised x
              | Returned tables \<Rightarrow>
                  Returned (ascii ''Tablas encontradas en Pagila: '' @
                            join (ascii '', '') tables))))"
  "fst (list_creative_customers e w) =
     (case connect_res e of Raised x \<Rightarrow> Raised x
      | Returned _ \<Rightarrow> (case close_res e of Raised x \<Rightarrow> Raised x
          | Returned _ \<Rightarrow> (case fetch_customers e of Raised x \<Rightarrow> Raised x
              | Returned rows \<Rightarrow> Returned (directory_header @ concat (map customer_line rows)))))"
  "fst (business_advisor_agent e w) =
     (case connect_res e of Raised x \<Rightarrow> Raised x
      | Returned _ \<Rightarrow> (case close_res e of Raised x \<Rightarrow> Raised x
          | Returned _ \<Rightarrow> (case fetch_categories e of Raised x \<Rightarrow> Raised x
              | Returned low_perf_cats \<Rightarrow> Returned (advice_text low_perf_cats))))"
  by (simp_all add: list_tables_def list_creative_customers_def business_advisor_agent_def
      driver_defs foldl_lines split: outcome.splits)

lemma report_issued:
  "issued w (snd (list_tables e w)) =
     (case connect_res e of Raised _ \<Rightarrow> [Connect]
      | Returned _ \<Rightarrow> [Connect, Fetch tables_query, Close])"
  "issued w (snd (list_creative_customers e w)) =
     (case connect_res e of Raised _ \<Rightarrow> [Connect]
      | Returned _ \<Rightarrow> [Connect, Fetch customers_query, Close])"
  "issued w (snd (business_advisor_agent e w)) =
     (case connect_res e of Raised _ \<Rightarrow> [Connect]
      | Returned _ \<Rightarrow> [Connect, Fetch categories_query, Close])"
  by (simp_all add: list_tables_def list_creative_customers_def business_advisor_agent_def
      driver_defs issued_def split: outcome.splits)

section \<open>What the caller receives\<close>

lemma rsq_result:
  "fst (run_select_query e q w) =
     (case gate e q of
        Rejected r \<Rightarrow>
          (case log_res e of Raised x \<Rightarrow> Raised x | Returned _ \<Rightarrow> Returned (mensaje r))
      | Allowed _ \<Rightarrow> fst (run_select_query_exec e q w))"
proof (cases "gate e q")
  case (Rejected r)
  then show ?thesis
    by (simp add: run_select_query_gate registrar_alerta_seguridad_def then_return_def
        split: outcome.splits)
next
  case (Allowed q')
  then have "q' = q" by (rule gate_Allowed_same)
  with Allowed show ?thesis by (simp add: rsq_allowed)
qed

text \<open>
  C7 (as amended). \<open>run_select_query\<close> returns a string on a validation rejection whose
  alert could be written, and, once its connection is open and provided the closing of
  it returns, on a database error whose alert could be written, on any other \<open>Exception\<close>
  of the directive or the query, and on success. It raises in every other case: the
  error of the log write, any error raised while the connection is opened, an error that
  is not an \<open>Exception\<close>, and the error of the closing, which replaces whatever was about
  to be returned. The three reporting operations have no handler: a connection error, an
  error of their query and an error of the closing all propagate to the caller; they
  return a string when the query and the closing succeed.
\<close>

theorem C7_returned_or_raised:
  "(\<forall>r. gate e q = Rejected r \<and> log_res e = Returned () \<longrightarrow>
      fst (run_select_query e q w) = Returned (mensaje r)) \<and>
   (\<forall>r x. gate e q = Rejected r \<and> log_res e = Raised x \<longrightarrow>
      fst (run_select_query e q w) = Raised x) \<and>
   (\<forall>x. gate e q = Allowed q \<and> connect_res e = Raised x \<longrightarrow>
      fst (run_select_query e q w) = Raised x) \<and>
   (\<forall>x. gate e q = Allowed q \<and> connect_res e = Returned () \<and> close_res e = Raised x \<longrightarrow>
      fst (run_select_query e q w) = Raised x) \<and>
   (\<forall>m. gate e q = Allowed q \<and> connect_res e = Returned () \<and> close_res e = Returned () \<and>
      db_error e q = Some m \<and> log_res e = Returned () \<longrightarrow>
      fst (run_select_query e q w) = Returned (ascii ''ERROR DE BASE DE DATOS: '' @ m)) \<and>
   (\<forall>m x. gate e q = Allowed q \<and> connect_res e = Returned () \<and> close_res e = Returned () \<and>
      db_error e q = Some m \<and> log_res e = Raised x \<longrightarrow>
      fst (run_select_query e q w) = Raised x) \<and>
   (\<forall>m. gate e q = Allowed q \<and> connect_res e = Returned () \<and> close_res e = Returned () \<and>
      (execute_res e READ_ONLY = Raised (OtherException m) \<or>
       execute_res e READ_ONLY = Returned () \<and> fetch_res e q = Raised (OtherException m)) \<longrightarrow>
      fst (run_select_query e q w) = Returned (ascii ''ERROR DEL SISTEMA: '' @ m)) \<and>
   (\<forall>rows. gate e q = Allowed q \<and> connect_res e = Returned () \<and> close_res e = Returned () \<and>
      execute_res e READ_ONLY = Returned () \<and> fetch_res e q = Returned rows \<longrightarrow>
      fst (run_select_query e q w) = Returned (format_rows rows)) \<and>
   (\<forall>m. gate e q = Allowed q \<and> connect_res e = Returned () \<and> close_res e = Returned () \<and>
      (execute_res e READ_ONLY = Raised (BaseExceptionOnly m) \<or>
       execute_res e READ_ONLY = Returned () \<and>
       fetch_res e q = Raised (BaseExceptionOnly m)) \<longrightarrow>
      fst (run_select_query e q w) = Raised (BaseExceptionOnly m)) \<and>
   (\<forall>x. connect_res e = Raised x \<or> connect_res e = Returned () \<and> close_res e = Raised x \<longrightarrow>
      fst (list_tables e w) = Raised x \<and> fst (list_creative_customers e w) = Raised x \<and>
      fst (business_advisor_agent e w) = Raised x) \<and>
   (\<forall>x. connect_res e = Returned () \<and> close_res e = Returned () \<and>
      fetch_tables e = Raised x \<longrightarrow> fst (list_tables e w) = Raised x) \<and>
   (\<forall>x. connect_res e = Returned () \<and> close_res e = Returned () \<and>
      fetch_customers e = Raised x \<longrightarrow> fst (list_creative_customers e w) = Raised x) \<and>
   (\<forall>x. connect_res e = Returned () \<and> close_res e = Returned () \<and>
      fetch_categories e = Raised x \<longrightarrow> fst (business_advisor_agent e w) = Raised x) \<and>
   (\<forall>ts. connect_res e = Returned () \<and> close_res e = Returned () \<and>
      fetch_tables e = Returned ts \<longrightarrow>
      fst (list_tables e w) =
        Returned (ascii ''Tablas encontradas en Pagila: '' @ join (ascii '', '') ts)) \<and>
   (\<forall>rows. connect_res e = Returned () \<and> close_res e = Returned () \<and>
      fetch_customers e = Returned rows \<longrightarrow>
      fst (list_creative_customers e w) =
        Returned (directory_header @ concat (map customer_line rows))) \<and>
   (\<forall>cs. connect_res e = Returned () \<and> close_res e = Returned () \<and>
      fetch_categories e = Returned cs \<longrightarrow>
      fst (business_advisor_agent e w) = Returned (advice_text cs))"
proof (intro conjI allI impI)
  fix r assume "gate e q = Rejected r \<and> log_res e = Returned ()"
  then show "fst (run_select_query e q w) = Returned (mensaje r)" by (simp add: rsq_result)
next
  fix r x assume "gate e q = Rejected r \<and> log_res e = Raised x"
  then show "fst (run_select_query e q w) = Raised x" by (simp add: rsq_result)
next
  fix x assume "gate e q = Allowed q \<and> connect_res e = Raised x"
  then show "fst (run_select_query e q w) = Raised x" by (simp add: rsq_result exec_result)
next
  fix x assume "gate e q = Allowed q \<and> connect_res e = Returned () \<and> close_res e = Raised x"
  then show "fst (run_select_query e q w) = Raised x" by (simp add: rsq_result exec_result)
next
  fix m assume "gate e q = Allowed q \<and> connect_res e = Returned () \<and>
      close_res e = Returned () \<and> db_error e q = Some m \<and> log_res e = Returned ()"
  then show "fst (run_select_query e q w) = Returned (ascii ''ERROR DE BASE DE DATOS: '' @ m)"
    by (auto simp: rsq_result exec_result db_error_def split: outcome.splits exn.splits)
next
  fix m x assume "gate e q = Allowed q \<and> connect_res e = Returned () \<and>
      close_res e = Returned () \<and> db_error e q = Some m \<and> log_res e = Raised x"
  then show "fst (run_select_query e q w) = Raised x"
    by (auto simp: rsq_result exec_result db_error_def split: outcome.splits exn.splits)
next
  fix m assume "gate e q = Allowed q \<and> connect_res e = Returned () \<and>
      close_res e = Returned () \<and>
      (execute_res e READ_ONLY = Raised (OtherException m) \<or>
       execute_res e READ_ONLY = Returned () \<and> fetch_res e q = Raised (OtherException m))"
  then show "fst (run_select_query e q w) = Returned (ascii ''ERROR DEL SISTEMA: '' @ m)"
    by (auto simp: rsq_result exec_result)
next
  fix rows assume "gate e q = Allowed q \<and> connect_res e = Returned () \<and>
      close_res e = Returned () \<and>
      execute_res e READ_ONLY = Returned () \<and> fetch_res e q = Returned rows"
  then show "fst (run_select_query e q w) = Returned (format_rows rows)"
    by (simp add: rsq_result exec_result)
next
  fix m assume "gate e q = Allowed q \<and> connect_res e = Returned () \<and>
      close_res e = Returned () \<and>
      (execute_res e READ_ONLY = Raised (BaseExceptionOnly m) \<or>
       execute_res e READ_ONLY = Returned () \<and>
       fetch_res e q = Raised (BaseExceptionOnly m))"
  then show "fst (run_select_query e q w) = Raised (BaseExceptionOnly m)"
    by (auto simp: rsq_result exec_result)
next
  fix x assume a: "connect_res e = Raised x \<or>
    connect_res e = Returned () \<and> close_res e = Raised x"
  then show "fst (list_tables e w) = Raised x" by (auto simp: report_results)
  from a show "fst (list_creative_customers e w) = Raised x" by (auto simp: report_results)
  from a show "fst (business_advisor_agent e w) = Raised x" by (auto simp: report_results)
next
  fix x assume "connect_res e = Returned () \<and> close_res e = Returned () \<and>
    fetch_tables e = Raised x"
  then show "fst (list_tables e w) = Raised x" by (simp add: report_results)
next
  fix x assume "connect_res e = Returned () \<and> close_res e = Returned () \<and>
    fetch_customers e = Raised x"
  then show "fst (list_creative_customers e w) = Raised x" by (simp add: report_results)
next
  fix x assume "connect_res e = Returned () \<and> close_res e = Returned () \<and>
    fetch_categories e = Raised x"
  then show "fst (business_advisor_agent e w) = Raised x" by (simp add: report_results)
next
  fix ts assume "connect_res e = Returned () \<and> close_res e = Returned () \<and>
    fetch_tables e = Returned ts"
  then show "fst (list_tables e w) =
        Returned (ascii ''Tablas encontradas en Pagila: '' @ join (ascii '', '') ts)"
    by (simp add: report_results)
next
  fix rows assume "connect_res e = Returned () \<and> close_res e = Returned () \<and>
    fetch_customers e = Returned rows"
  then show "fst (list_creative_customers e w) =
        Returned (directory_header @ concat (map customer_line rows))"
    by (simp add: report_results)
next
  fix cs assume "connect_res e = Returned () \<and> close_res e = Returned () \<and>
    fetch_categories e = Returned cs"
  then show "fst (business_advisor_agent e w) = Returned (advice_text cs)"
    by (simp add: report_results)
qed

text \<open>A database error comes back as text when its alert is written, and as the error
  of the log write when it is not; a refused connection and a failed closing are
  raised.\<close>

theorem C7_witness:
  "fst (run_select_query env_db_error (ascii ''select * from nonexistent_table'') world0) =
     Returned (ascii ''ERROR DE BASE DE DATOS: relation does not exist'') \<and>
   fst (run_select_query env_log_fails (ascii ''select * from nonexistent_table'') world0) =
     Raised (OtherException (ascii ''Permission denied'')) \<and>
   fst (run_select_query env_close_fails (ascii ''SELECT 1'') world0) =
     Raised (OtherException (ascii ''connection is closed'')) \<and>
   fst (business_advisor_agent env_down world0) =
     Raised (OtherException (ascii ''connection refused''))"
proof -
  let ?q = "ascii ''select * from nonexistent_table''"
  let ?q1 = "ascii ''SELECT 1''"
  have g: "gate env_db_error ?q = Allowed ?q \<and> connect_res env_db_error = Returned () \<and>
    close_res env_db_error = Returned () \<and>
    db_error env_db_error ?q = Some (ascii ''relation does not exist'') \<and>
    log_res env_db_error = Returned ()" by code_simp
  have l: "gate env_log_fails ?q = Allowed ?q \<and> connect_res env_log_fails = Returned () \<and>
    close_res env_log_fails = Returned () \<and>
    db_error env_log_fails ?q = Some (ascii ''relation does not exist'') \<and>
    log_res env_log_fails = Raised (OtherException (ascii ''Permission denied''))"
    by code_simp
  have c: "gate env_close_fails ?q1 = Allowed ?q1 \<and> connect_res env_close_fails = Returned () \<and>
    close_res env_close_fails = Raised (OtherException (ascii ''connection is closed''))"
    by code_simp
  have d: "connect_res env_down = Raised (OtherException (ascii ''connection refused''))"
    by code_simp
  from C7_returned_or_raised [where e = env_db_error and q = ?q and w = world0,
      THEN conjunct2, THEN conjunct2, THEN conjunct2, THEN conjunct2,
      THEN conjunct1] g
  have r1: "fst (run_select_query env_db_error ?q world0) =
    Returned (ascii ''ERROR DE BASE DE DATOS: '' @ ascii ''relation does not exist'')"
    by blast
  from C7_returned_or_raised [where e = env_log_fails and q = ?q and w = world0,
      THEN conjunct2, THEN conjunct2, THEN conjunct2, THEN conjunct2,
      THEN conjunct2, THEN conjunct1] l
  have r2: "fst (run_select_query env_log_fails ?q world0) =
    Raised (OtherException (ascii ''Permission denied''))" by blast
  from C7_returned_or_raised [where e = env_close_fails and q = ?q1 and w = world0,
      THEN conjunct2, THEN conjunct2, THEN conjunct2, THEN conjunct1] c
  have r3: "fst (run_select_query env_close_fails ?q1 world0) =
    Raised (OtherException (ascii ''connection is closed''))" by blast
  from C7_returned_or_raised [where e = env_down and q = ?q and w = world0,
      THEN conjunct2, THEN conjunct2, THEN conjunct2, THEN conjunct2,
      THEN conjunct2, THEN conjunct2, THEN conjunct2, THEN conjunct2,
      THEN conjunct2, THEN conjunct1] d
  have r4: "fst (business_advisor_agent env_down world0) =
    Raised (OtherException (ascii ''connection refused''))" by blast
  have v: "ascii ''ERROR DE BASE DE DATOS: '' @ ascii ''relation does not exist'' =
    ascii ''ERROR DE BASE DE DATOS: relation does not exist''" by (simp add: ascii_def)
  from r1 v have r1': "fst (run_select_query env_db_error ?q world0) =
    Returned (ascii ''ERROR DE BASE DE DATOS: relation does not exist'')" by simp
  from r1' r2 r3 r4 show ?thesis by blast
qed

text \<open>
  The claim as written fails: a database error in \<open>list_tables\<close> and a refused connection
  in \<open>run_select_query\<close> both reach the caller as a raised error, not as a string.
\<close>

theorem C7_counterexample:
  "fst (list_tables env_db_error world0) = Raised (PostgresError (ascii ''permission denied'')) \<and>
   gate env_down (ascii ''SELECT 1'') = Allowed (ascii ''SELECT 1'') \<and>
   fst (run_select_query env_down (ascii ''SELECT 1'') world0) =
     Raised (OtherException (ascii ''connection refused''))"
  by code_simp

text \<open>
  C8. In each of the four operations a handle that was opened is closed exactly once,
  as the last driver call, whatever the query, the log write or the closing itself did
  (\<open>closed_once\<close>). When the connection could not be opened there is no handle and no
  \<open>Close\<close>; a rejected query opens none.
\<close>

theorem C8_handle_closed_once:
  "(connect_res e = Returned () \<longrightarrow>
      closed_once (issued w (snd (list_tables e w))) \<and>
      closed_once (issued w (snd (list_creative_customers e w))) \<and>
      closed_once (issued w (snd (business_advisor_agent e w))) \<and>
      (gate e q = Allowed q \<longrightarrow> closed_once (issued w (snd (run_select_query e q w))))) \<and>
   (\<forall>x. connect_res e = Raised x \<longrightarrow>
      issued w (snd (list_tables e w)) = [Connect] \<and>
      issued w (snd (list_creative_customers e w)) = [Connect] \<and>
      issued w (snd (business_advisor_agent e w)) = [Connect] \<and>
      (gate e q = Allowed q \<longrightarrow> issued w (snd (run_select_query e q w)) = [Connect])) \<and>
   (\<forall>r. gate e q = Rejected r \<longrightarrow> issued w (snd (run_select_query e q w)) = [])"
proof (intro conjI allI impI)
  assume a: "connect_res e = Returned ()"
  then show "closed_once (issued w (snd (list_tables e w)))"
    by (simp add: report_issued closed_once_def)
  from a show "closed_once (issued w (snd (list_creative_customers e w)))"
    by (simp add: report_issued closed_once_def)
  from a show "closed_once (issued w (snd (business_advisor_agent e w)))"
    by (simp add: report_issued closed_once_def)
  assume "gate e q = Allowed q"
  with a show "closed_once (issued w (snd (run_select_query e q w)))"
    by (simp add: rsq_issued closed_once_def split: outcome.splits)
next
  fix x assume a: "connect_res e = Raised x"
  then show "issued w (snd (list_tables e w)) = [Connect]" by (simp add: report_issued)
  from a show "issued w (snd (list_creative_customers e w)) = [Connect]"
    by (simp add: report_issued)
  from a show "issued w (snd (business_advisor_agent e w)) = [Connect]"
    by (simp add: report_issued)
  assume "gate e q = Allowed q"
  with a show "issued w (snd (run_select_query e q w)) = [Connect]"
    by (simp add: rsq_issued)
next
  fix r assume "gate e q = Rejected r"
  then show "issued w (snd (run_select_query e q w)) = []" by (simp add: rsq_issued)
qed

text \<open>With a failing query, a failing log write or a failing closing the handle is
  still closed, once and last.\<close>

theorem C8_witness:
  "closed_once (issued world0 (snd (list_tables env_db_error world0))) \<and>
   closed_once (issued world0
     (snd (run_select_query env_db_error (ascii ''select * from nonexistent_table'') world0))) \<and>
   issued world0
     (snd (run_select_query env_db_error (ascii ''select * from nonexistent_table'') world0)) =
     [Connect, Execute READ_ONLY, Fetch (ascii ''select * from nonexistent_table''), Close] \<and>
   closed_once (issued world0
     (snd (run_select_query env_log_fails (ascii ''select * from nonexistent_table'') world0))) \<and>
   closed_once (issued world0
     (snd (run_select_query env_close_fails (ascii ''select * from nonexistent_table'')
             world0))) \<and>
   issued world0 (snd (list_creative_customers env_down world0)) = [Connect]"
proof -
  let ?q = "ascii ''select * from nonexistent_table''"
  have g: "gate env_db_error ?q = Allowed ?q \<and> connect_res env_db_error = Returned ()"
    by code_simp
  have l: "gate env_log_fails ?q = Allowed ?q \<and> connect_res env_log_fails = Returned ()"
    by code_simp
  have c: "gate env_close_fails ?q = Allowed ?q \<and> connect_res env_close_fails = Returned ()"
    by code_simp
  have d: "connect_res env_down = Raised (OtherException (ascii ''connection refused''))"
    by code_simp
  have v: "issued world0 (snd (run_select_query env_db_error ?q world0)) =
     [Connect, Execute READ_ONLY, Fetch ?q, Close]" by code_simp
  from C8_handle_closed_once [where e = env_db_error and q = ?q and w = world0] g
  have r1: "closed_once (issued world0 (snd (list_tables env_db_error world0))) \<and>
    closed_once (issued world0 (snd (run_select_query env_db_error ?q world0)))" by blast
  from C8_handle_closed_once [where e = env_log_fails and q = ?q and w = world0] l
  have r3: "closed_once (issued world0 (snd (run_select_query env_log_fails ?q world0)))"
    by blast
  from C8_handle_closed_once [where e = env_close_fails and q = ?q and w = world0] c
  have r4: "closed_once (issued world0 (snd (run_select_query env_close_fails ?q world0)))"
    by blast
  from C8_handle_closed_once [where e = env_down and q = ?q and w = world0] d
  have r2: "issued world0 (snd (list_creative_customers env_down world0)) = [Connect]"
    by blast
  from r1 r2 r3 r4 v show ?thesis by blast
qed

section \<open>The customer directory\<close>

text \<open>
  C9. The avatar of a row depends on its total spend alone: the crown strictly above
  150, otherwise the gem strictly above 100, otherwise the bust; a NULL spend counts as
  0 and gets the bust. The line of the report for a row carries that avatar, and the
  report, returned unless the closing of the handle raises, is the header followed by
  one such line per fetched row.
\<close>

theorem C9_tier_by_spend:
  "avatar_of (spent_of r) =
     (if 150 < spent_of r then [0x1F451]
      else if 100 < spent_of r then [0x1F48E]
      else [0x1F464]) \<and>
   spent_of r = (case total_spent r of None \<Rightarrow> 0 | Some d \<Rightarrow> d) \<and>
   (total_spent r = None \<longrightarrow> spent_of r = 0 \<and> avatar_of (spent_of r) = [0x1F464]) \<and>
   (total_spent r = total_spent r' \<longrightarrow> avatar_of (spent_of r) = avatar_of (spent_of r')) \<and>
   customer_line r =
     ascii ''| '' @ avatar_of (spent_of r) @ ascii '' | '' @ first_name r @ ascii '' '' @
     last_name r @ ascii '' | $'' @ format_2f (spent_of r) @ ascii '' |'' @ [10] \<and>
   (connect_res e = Returned () \<and> fetch_customers e = Returned rows \<longrightarrow>
      fst (list_creative_customers e w) =
        (case close_res e of
           Raised x \<Rightarrow> Raised x
         | Returned _ \<Rightarrow> Returned (directory_header @ concat (map customer_line rows))))"
proof (intro conjI impI)
  show "avatar_of (spent_of r) =
     (if 150 < spent_of r then [0x1F451]
      else if 100 < spent_of r then [0x1F48E]
      else [0x1F464])"
    by (simp add: avatar_of_def)
  show "spent_of r = (case total_spent r of None \<Rightarrow> 0 | Some d \<Rightarrow> d)"
    by (simp add: spent_of_def split: option.splits)
  show "customer_line r =
     ascii ''| '' @ avatar_of (spent_of r) @ ascii '' | '' @ first_name r @ ascii '' '' @
     last_name r @ ascii '' | $'' @ format_2f (spent_of r) @ ascii '' |'' @ [10]"
    by (simp add: customer_line_def Let_def ascii_def)
next
  assume n: "total_spent r = None"
  then show "spent_of r = 0" by (simp add: spent_of_def)
  from n show "avatar_of (spent_of r) = [0x1F464]"
    by (simp add: spent_of_def avatar_of_def)
next
  assume "total_spent r = total_spent r'"
  then show "avatar_of (spent_of r) = avatar_of (spent_of r')" by (simp add: spent_of_def)
next
  assume "connect_res e = Returned () \<and> fetch_customers e = Returned rows"
  then show "fst (list_creative_customers e w) =
        (case close_res e of
           Raised x \<Rightarrow> Raised x
         | Returned _ \<Rightarrow> Returned (directory_header @ concat (map customer_line rows)))"
    by (simp add: report_results split: outcome.splits)
qed

text \<open>Spends of 200, 120, 0 and NULL give the crown, the gem, the bust and the bust.\<close>

theorem C9_witness:
  "fst (list_creative_customers env_ok world0) =
     Returned (ascii ''### '' @ [0x1F465] @ ascii '' Directorio con Avatares\<newline>| Avatar | Nombre | Nivel |\<newline>| :--- | :--- | :--- |\<newline>| '' @ [0x1F451] @ ascii '' | MARY SMITH | $200.00 |\<newline>| '' @ [0x1F48E] @ ascii '' | LINDA WILLIAMS | $120.00 |\<newline>| '' @ [0x1F464] @ ascii '' | JOHN DOE | $0.00 |\<newline>| '' @ [0x1F464] @ ascii '' | ANN LEE | $0.00 |\<newline>'')"
proof -
  let ?rows = "[\<lparr>first_name = ascii ''MARY'', last_name = ascii ''SMITH'',
            total_spent = Some 200\<rparr>,
           \<lparr>first_name = ascii ''LINDA'', last_name = ascii ''WILLIAMS'',
            total_spent = Some 120\<rparr>,
           \<lparr>first_name = ascii ''JOHN'', last_name = ascii ''DOE'', total_spent = Some 0\<rparr>,
           \<lparr>first_name = ascii ''ANN'', last_name = ascii ''LEE'', total_spent = None\<rparr>]"
  have h: "connect_res env_ok = Returned () \<and> fetch_customers env_ok = Returned ?rows"
    by (simp add: env_ok_def)
  have c: "close_res env_ok = Returned ()" by (simp add: env_ok_def)
  have v: "directory_header @ concat (map customer_line ?rows) =
     ascii ''### '' @ [0x1F465] @ ascii '' Directorio con Avatares\<newline>| Avatar | Nombre | Nivel |\<newline>| :--- | :--- | :--- |\<newline>| '' @ [0x1F451] @ ascii '' | MARY SMITH | $200.00 |\<newline>| '' @ [0x1F48E] @ ascii '' | LINDA WILLIAMS | $120.00 |\<newline>| '' @ [0x1F464] @ ascii '' | JOHN DOE | $0.00 |\<newline>| '' @ [0x1F464] @ ascii '' | ANN LEE | $0.00 |\<newline>''"
    by (simp add: directory_header_def customer_line_def spent_of_def avatar_of_def
        format_2f_def round_half_even_def digit_def ascii_def)
  from C9_tier_by_spend [where e = env_ok and w = world0 and rows = ?rows] h
  have "fst (list_creative_customers env_ok world0) =
        (case close_res env_ok of
           Raised x \<Rightarrow> Raised x
         | Returned _ \<Rightarrow> Returned (directory_header @ concat (map customer_line ?rows)))"
    by blast
  with c v show ?thesis by simp
qed



end
